theory Spec2Isabelle
  imports Main
begin

section \<open>Form state: \<open>src/lib/utils.ts\<close>\<close>

text \<open>
  \<open>useFormFields<T>\<close> keeps one state cell \<open>values\<close> of the generic object type \<open>T\<close>.
  A JavaScript object with string fields is a finite map from field names to strings;
  the computed key \<open>[name]\<close> may be any string, also one that is no field of \<open>T\<close>.
  The \<open>target\<close> of a change event is an input element, of which the handler reads the
  attributes \<open>name\<close> and \<open>value\<close>.
\<close>

type_synonym fields = "string \<rightharpoonup> string"

record HTMLInputElement =
  input_name :: string
  input_value :: string

record ChangeEvent =
  target :: HTMLInputElement

text \<open>
  \<open>handleChange\<close> closes over the \<open>values\<close> of the render that created it and hands
  \<open>{ ...values, [name]: value }\<close> to \<open>setValues\<close>: the result below is the next content
  of the state cell. \<open>event.persist()\<close> has no effect on the form state.
\<close>

definition handleChange :: "fields \<Rightarrow> ChangeEvent \<Rightarrow> fields" where
  "handleChange values event =
     (let name = input_name (target event); v = input_value (target event)
      in values(name \<mapsto> v))"

text \<open>
  One render of \<open>useFormFields\<close>: \<open>values\<close> is the content of the state cell at this
  render (\<open>initialValues\<close> at the first), returned with the handler that closes over it.
\<close>

definition useFormFields :: "fields \<Rightarrow> fields \<times> (ChangeEvent \<Rightarrow> fields)" where
  "useFormFields values = (values, handleChange values)"

section \<open>Values owned by the auth provider's SDK\<close>

text \<open>
  A user and a session are owned by the SDK; the code reads \<open>user.email\<close> and
  \<open>session.user\<close> only, both of which may be missing. The notification kinds are those
  listed in \<open>AuthContext.tsx\<close>. \<open>SupabaseAuthPayload\<close> is the credential pair.
\<close>

record User =
  user_id :: string
  email :: "string option"

record Session =
  access_token :: string
  user :: "User option"

datatype AuthChangeEvent = SIGNED_IN | SIGNED_OUT | USER_UPDATED | PASSWORD_RECOVERY

record SupabaseAuthPayload =
  email :: string
  password :: string

datatype signIn_argument = Credentials SupabaseAuthPayload | Provider string

text \<open>The error value that an SDK call returns beside its data.\<close>

record ApiError =
  message :: string

text \<open>
  A thrown JavaScript value: a value that may carry an \<open>error_description\<close>, or the
  \<open>TypeError\<close> of the runtime (calling \<open>undefined\<close>, reading a property of \<open>null\<close>,
  a \<open>fetch\<close> that fails on the network), which carries none.
\<close>

datatype thrown = Thrown "string option" | TypeError string

fun error_description :: "thrown \<Rightarrow> string option" where
  "error_description (Thrown d) = d"
| "error_description (TypeError m) = None"

text \<open>How an awaited promise settles: this is what the outside world decides.\<close>

datatype 'a outcome = Fulfilled 'a | Rejected thrown

section \<open>Effects\<close>

text \<open>
  The object handed to \<open>handleMessage\<close>; \<open>message\<close> is a string, or, in the
  \<open>catch\<close> blocks, the thrown value itself. The sign-up page passes no \<open>type\<close>.
\<close>

datatype message_value = Text string | Object thrown

record MessageProps =
  message :: message_value
  type :: "string option"

record RequestInit =
  request_method :: string
  headers :: "(string \<times> string) list"
  credentials :: string
  body :: string

record EventSession =
  event :: AuthChangeEvent
  session :: "Session option"

datatype Response = Response nat

text \<open>Everything the code does to its surroundings, in the order in which it does it.\<close>

datatype effect =
    SetLoading bool
  | SetUser "User option"
  | SetUserLoading bool
  | SetLoggedin bool
  | Auth_signUp SupabaseAuthPayload
  | Auth_signIn signIn_argument
  | Auth_signOut
  | Auth_user
  | Auth_onAuthStateChange
  | AuthListener_unsubscribe
  | HandleMessage MessageProps
  | Router_push string
  | Fetch string RequestInit
  | Console_log AuthChangeEvent "Session option"
  | PreventDefault

text \<open>
  The four \<open>useState\<close> cells of \<open>AuthProvider\<close>, and the trace of effects so far.
  A state setter writes its cell and is recorded in the trace.
\<close>

record world =
  loading :: bool
  user :: "User option"
  userLoading :: bool
  loggedIn :: bool
  trace :: "effect list"

text \<open>
  What the code takes from modules that are not part of the sources at hand: the two
  routes of \<open>config\<close>, whether \<open>useMessage()\<close> delivers a \<open>handleMessage\<close> (the code
  tests it once, in \<open>signUp\<close>), and the runtime's \<open>JSON.stringify\<close>.
\<close>

record env =
  ROUTE_HOME :: string
  ROUTE_AUTH :: string
  handleMessage_defined :: bool
  JSON_stringify :: "EventSession \<Rightarrow> string"

text \<open>A computation runs on the world and returns a value or throws.\<close>

type_synonym 'a action = "world \<Rightarrow> (thrown + 'a) \<times> world"

definition return_val :: "'a \<Rightarrow> 'a action" where
  "return_val x w = (Inr x, w)"

definition throw_val :: "thrown \<Rightarrow> 'a action" where
  "throw_val e w = (Inl e, w)"

definition bind_action :: "'a action \<Rightarrow> ('a \<Rightarrow> 'b action) \<Rightarrow> 'b action" where
  "bind_action m f w = (case m w of (Inl e, w') \<Rightarrow> (Inl e, w') | (Inr x, w') \<Rightarrow> f x w')"

text \<open>
  \<open>try { b } catch (error) { h } finally { f }\<close>: the handler runs when the body throws,
  the finaliser runs in every case, and what it throws replaces the earlier completion.
\<close>

definition try_catch_finally ::
  "unit action \<Rightarrow> (thrown \<Rightarrow> unit action) \<Rightarrow> unit action \<Rightarrow> unit action" where
  "try_catch_finally b h f w =
     (case (case b w of (Inl e, w1) \<Rightarrow> h e w1 | (Inr x, w1) \<Rightarrow> (Inr x, w1)) of
        (r, w2) \<Rightarrow> (case f w2 of (Inl e', w3) \<Rightarrow> (Inl e', w3) | (Inr y, w3) \<Rightarrow> (r, w3)))"

definition emit :: "effect \<Rightarrow> unit action" where
  "emit e w = (Inr (), w\<lparr>trace := trace w @ [e]\<rparr>)"

fun await :: "'a outcome \<Rightarrow> 'a action" where
  "await (Fulfilled x) = return_val x"
| "await (Rejected e) = throw_val e"

definition setLoading :: "bool \<Rightarrow> unit action" where
  "setLoading b w = (Inr (), w\<lparr>loading := b, trace := trace w @ [SetLoading b]\<rparr>)"

definition setUser :: "User option \<Rightarrow> unit action" where
  "setUser u w = (Inr (), w\<lparr>user := u, trace := trace w @ [SetUser u]\<rparr>)"

definition setUserLoading :: "bool \<Rightarrow> unit action" where
  "setUserLoading b w = (Inr (), w\<lparr>userLoading := b, trace := trace w @ [SetUserLoading b]\<rparr>)"

definition setLoggedin :: "bool \<Rightarrow> unit action" where
  "setLoggedin b w = (Inr (), w\<lparr>loggedIn := b, trace := trace w @ [SetLoggedin b]\<rparr>)"

text \<open>Calling \<open>handleMessage\<close> when \<open>useMessage()\<close> delivered none is a \<open>TypeError\<close>.\<close>

definition handleMessage :: "env \<Rightarrow> MessageProps \<Rightarrow> unit action" where
  "handleMessage env m =
     (if handleMessage_defined env then emit (HandleMessage m)
      else throw_val (TypeError ''handleMessage is not a function''))"

definition Router_push_action :: "string \<Rightarrow> unit action" where
  "Router_push_action route = emit (Router_push route)"

text \<open>The SDK calls: the call is recorded, then its promise settles as the SDK decides.\<close>

definition supabase_auth_signUp ::
  "ApiError option outcome \<Rightarrow> SupabaseAuthPayload \<Rightarrow> (ApiError option) action" where
  "supabase_auth_signUp sdk payload = bind_action (emit (Auth_signUp payload)) (\<lambda>_. await sdk)"

definition supabase_auth_signIn ::
  "(ApiError option \<times> User option) outcome \<Rightarrow> signIn_argument
     \<Rightarrow> (ApiError option \<times> User option) action" where
  "supabase_auth_signIn sdk arg = bind_action (emit (Auth_signIn arg)) (\<lambda>_. await sdk)"

definition supabase_auth_signOut :: "ApiError option outcome \<Rightarrow> (ApiError option) action" where
  "supabase_auth_signOut sdk = bind_action (emit Auth_signOut) (\<lambda>_. await sdk)"

text \<open>A template literal prints a missing value as \<open>undefined\<close>.\<close>

fun template_string :: "string option \<Rightarrow> string" where
  "template_string (Some s) = s"
| "template_string None = ''undefined''"

text \<open>\<open>error.error_description || error\<close>: the empty string is falsy.\<close>

definition error_description_or_error :: "thrown \<Rightarrow> message_value" where
  "error_description_or_error error =
     (case error_description error of
        Some d \<Rightarrow> if d \<noteq> [] then Text d else Object error
      | None \<Rightarrow> Object error)"

section \<open>The auth provider: \<open>src/lib/auth/AuthContext.tsx\<close>\<close>

definition signUp :: "env \<Rightarrow> ApiError option outcome \<Rightarrow> SupabaseAuthPayload \<Rightarrow> unit action" where
  "signUp env sdk payload =
     try_catch_finally
       (bind_action (setLoading True) (\<lambda>_.
        bind_action (supabase_auth_signUp sdk payload) (\<lambda>error.
          case error of
            Some err \<Rightarrow>
              if handleMessage_defined env
              then handleMessage env \<lparr>message = Text (ApiError.message err), type = Some ''error''\<rparr>
              else return_val ()
          | None \<Rightarrow>
              handleMessage env
                \<lparr>message = Text ''Signup successful. Please check your inbox for a confirmation email!'',
                 type = Some ''success''\<rparr>)))
       (\<lambda>error. handleMessage env \<lparr>message = error_description_or_error error, type = Some ''error''\<rparr>)
       (setLoading False)"

text \<open>
  In \<open>signIn\<close> the success branch reads \<open>user.email\<close>: with no user in the result this
  is a \<open>TypeError\<close>, thrown inside the \<open>try\<close>.
\<close>

definition signIn ::
  "env \<Rightarrow> (ApiError option \<times> User option) outcome \<Rightarrow> SupabaseAuthPayload \<Rightarrow> unit action" where
  "signIn env sdk payload =
     try_catch_finally
       (bind_action (setLoading True) (\<lambda>_.
        bind_action (supabase_auth_signIn sdk (Credentials payload)) (\<lambda>(error, u).
          case error of
            Some err \<Rightarrow>
              handleMessage env \<lparr>message = Text (ApiError.message err), type = Some ''error''\<rparr>
          | None \<Rightarrow>
              (case u of
                 None \<Rightarrow> throw_val (TypeError ''Cannot read properties of null'')
               | Some usr \<Rightarrow>
                   handleMessage env
                     \<lparr>message = Text (''Welcome, '' @ template_string (User.email usr)),
                      type = Some ''success''\<rparr>))))
       (\<lambda>error. handleMessage env \<lparr>message = error_description_or_error error, type = Some ''error''\<rparr>)
       (setLoading False)"

definition signInWithGithub :: "(ApiError option \<times> User option) outcome \<Rightarrow> unit action" where
  "signInWithGithub sdk =
     bind_action (emit PreventDefault) (\<lambda>_.
     bind_action (supabase_auth_signIn sdk (Provider ''github'')) (\<lambda>_. return_val ()))"

definition signOut :: "ApiError option outcome \<Rightarrow> (ApiError option) action" where
  "signOut sdk = supabase_auth_signOut sdk"

definition setServerSession ::
  "env \<Rightarrow> Response outcome \<Rightarrow> AuthChangeEvent \<Rightarrow> Session option \<Rightarrow> unit action" where
  "setServerSession env fetched ev sess =
     bind_action
       (emit (Fetch ''/api/auth''
          \<lparr>request_method = ''POST'',
           headers = [(''Content-Type'', ''application/json'')],
           credentials = ''same-origin'',
           body = JSON_stringify env \<lparr>event = ev, session = sess\<rparr>\<rparr>))
       (\<lambda>_. bind_action (await fetched) (\<lambda>_. return_val ()))"

text \<open>\<open>session?.user! ?? null\<close>\<close>

fun session_user :: "Session option \<Rightarrow> User option" where
  "session_user None = None"
| "session_user (Some s) = Session.user s"

text \<open>The callback given to \<open>supabase.auth.onAuthStateChange\<close>.\<close>

definition onAuthStateChange_handler ::
  "env \<Rightarrow> Response outcome \<Rightarrow> AuthChangeEvent \<Rightarrow> Session option \<Rightarrow> unit action" where
  "onAuthStateChange_handler env fetched ev sess =
     bind_action (emit (Console_log ev sess)) (\<lambda>_.
     bind_action (setUserLoading False) (\<lambda>_.
     bind_action (setServerSession env fetched ev sess) (\<lambda>_.
       case session_user sess of
         Some u \<Rightarrow>
           bind_action (setUser (Some u)) (\<lambda>_.
           bind_action (setLoggedin True) (\<lambda>_.
           Router_push_action (ROUTE_HOME env)))
       | None \<Rightarrow>
           bind_action (setUser None) (\<lambda>_.
           Router_push_action (ROUTE_AUTH env)))))"



section \<open>The sign-up page\<close>



section \<open>Reading a trace\<close>


fun messages_shown :: "effect list \<Rightarrow> MessageProps list" where
  "messages_shown [] = []"
| "messages_shown (HandleMessage m # es) = m # messages_shown es"
| "messages_shown (e # es) = messages_shown es"

fun navigations :: "effect list \<Rightarrow> string list" where
  "navigations [] = []"
| "navigations (Router_push r # es) = r # navigations es"
| "navigations (e # es) = navigations es"

fun requests :: "effect list \<Rightarrow> (string \<times> RequestInit) list" where
  "requests [] = []"
| "requests (Fetch url init # es) = (url, init) # requests es"
| "requests (e # es) = requests es"

fun loading_writes :: "effect list \<Rightarrow> bool list" where
  "loading_writes [] = []"
| "loading_writes (SetLoading b # es) = b # loading_writes es"
| "loading_writes (e # es) = loading_writes es"

text \<open>Example surroundings and an example start, for evaluating the code.\<close>

definition example_env :: env where
  "example_env =
     \<lparr>ROUTE_HOME = ''/'', ROUTE_AUTH = ''/auth'', handleMessage_defined = True,
      JSON_stringify = (\<lambda>x. ''{}'')\<rparr>"

text \<open>The same surroundings when \<open>useMessage()\<close> delivers no \<open>handleMessage\<close>.\<close>

definition no_message_env :: env where
  "no_message_env = example_env\<lparr>handleMessage_defined := False\<rparr>"

definition alice :: User where
  "alice = \<lparr>user_id = ''16a86e03'', User.email = Some ''alice@example.com''\<rparr>"

definition initial_world :: world where
  "initial_world =
     \<lparr>loading = False, user = None, userLoading = True, loggedIn = False, trace = []\<rparr>"

definition logged_in_world :: world where
  "logged_in_world =
     \<lparr>loading = False, user = Some alice, userLoading = False, loggedIn = True, trace = []\<rparr>"

section \<open>Summaries of the two credential calls\<close>

text \<open>
  The messages that one run of \<open>signUp\<close> and of \<open>signIn\<close> hands to \<open>handleMessage\<close>,
  by the way the SDK call settles; they are used to state what a whole run leaves behind.
\<close>

definition signUp_messages :: "env \<Rightarrow> ApiError option outcome \<Rightarrow> MessageProps list" where
  "signUp_messages env sdk =
     (if handleMessage_defined env
      then (case sdk of
              Fulfilled (Some err) \<Rightarrow>
                [\<lparr>message = Text (ApiError.message err), type = Some ''error''\<rparr>]
            | Fulfilled None \<Rightarrow>
                [\<lparr>message = Text ''Signup successful. Please check your inbox for a confirmation email!'',
                  type = Some ''success''\<rparr>]
            | Rejected e \<Rightarrow> [\<lparr>message = error_description_or_error e, type = Some ''error''\<rparr>])
      else [])"

definition signIn_messages ::
  "env \<Rightarrow> (ApiError option \<times> User option) outcome \<Rightarrow> MessageProps list" where
  "signIn_messages env sdk =
     (if handleMessage_defined env
      then (case sdk of
              Fulfilled (Some err, u) \<Rightarrow>
                [\<lparr>message = Text (ApiError.message err), type = Some ''error''\<rparr>]
            | Fulfilled (None, Some usr) \<Rightarrow>
                [\<lparr>message = Text (''Welcome, '' @ template_string (User.email usr)),
                  type = Some ''success''\<rparr>]
            | Fulfilled (None, None) \<Rightarrow>
                [\<lparr>message = Object (TypeError ''Cannot read properties of null''),
                  type = Some ''error''\<rparr>]
            | Rejected e \<Rightarrow> [\<lparr>message = error_description_or_error e, type = Some ''error''\<rparr>])
      else [])"

section \<open>Frame property of the form handler\<close>

text \<open>
  C9: for every form state and every change event, the \<open>handleChange\<close> returned by
  \<open>useFormFields\<close> sets the field named by the event's target to the target's value and
  leaves every other field as it was (absent fields stay absent).
\<close>

theorem handleChange_frame:
  "snd (useFormFields values) ev (input_name (target ev)) = Some (input_value (target ev))
   \<and> (\<forall>k. k \<noteq> input_name (target ev) \<longrightarrow> snd (useFormFields values) ev k = values k)"
  by (simp add: useFormFields_def handleChange_def)

theorem handleChange_frame_witness:
  "snd (useFormFields [''email'' \<mapsto> ''a'', ''password'' \<mapsto> ''b''])
       \<lparr>target = \<lparr>input_name = ''email'', input_value = ''ab''\<rparr>\<rparr> ''email'' = Some ''ab''
   \<and> ''password'' \<noteq> ''email''
   \<and> snd (useFormFields [''email'' \<mapsto> ''a'', ''password'' \<mapsto> ''b''])
       \<lparr>target = \<lparr>input_name = ''email'', input_value = ''ab''\<rparr>\<rparr> ''password'' = Some ''b''"
  using handleChange_frame
    [of "[''email'' \<mapsto> ''a'', ''password'' \<mapsto> ''b'']"
        "\<lparr>target = \<lparr>input_name = ''email'', input_value = ''ab''\<rparr>\<rparr>"]
  by simp

section \<open>What a run leaves behind\<close>

lemmas action_defs =
  return_val_def throw_val_def bind_action_def try_catch_finally_def emit_def
  setLoading_def setUser_def setUserLoading_def setLoggedin_def handleMessage_def
  Router_push_action_def supabase_auth_signUp_def supabase_auth_signIn_def
  supabase_auth_signOut_def


lemma messages_shown_append: "messages_shown (xs @ ys) = messages_shown xs @ messages_shown ys"
  by (induction xs rule: messages_shown.induct) simp_all


lemma requests_append: "requests (xs @ ys) = requests xs @ requests ys"
  by (induction xs rule: requests.induct) simp_all

lemma loading_writes_append: "loading_writes (xs @ ys) = loading_writes xs @ loading_writes ys"
  by (induction xs rule: loading_writes.induct) simp_all

lemma signUp_world:
  "snd (signUp env sdk payload w) =
     w\<lparr>loading := False,
       trace := trace w @ [SetLoading True, Auth_signUp payload]
                @ map HandleMessage (signUp_messages env sdk) @ [SetLoading False]\<rparr>"
  by (cases sdk) (auto simp: signUp_def signUp_messages_def action_defs split: option.splits)

lemma signIn_world:
  "snd (signIn env sdk payload w) =
     w\<lparr>loading := False,
       trace := trace w @ [SetLoading True, Auth_signIn (Credentials payload)]
                @ map HandleMessage (signIn_messages env sdk) @ [SetLoading False]\<rparr>"
  by (cases sdk) (auto simp: signIn_def signIn_messages_def error_description_or_error_def action_defs
      split: option.splits)

lemma handler_fulfilled:
  "onAuthStateChange_handler env (Fulfilled r) ev sess w =
     (Inr (),
      w\<lparr>userLoading := False, world.user := session_user sess,
        loggedIn := (case session_user sess of Some u \<Rightarrow> True | None \<Rightarrow> loggedIn w),
        trace := trace w @
          [Console_log ev sess, SetUserLoading False,
           Fetch ''/api/auth''
             \<lparr>request_method = ''POST'', headers = [(''Content-Type'', ''application/json'')],
              credentials = ''same-origin'',
              body = JSON_stringify env \<lparr>event = ev, session = sess\<rparr>\<rparr>]
          @ (case session_user sess of
               Some u \<Rightarrow> [SetUser (Some u), SetLoggedin True, Router_push (ROUTE_HOME env)]
             | None \<Rightarrow> [SetUser None, Router_push (ROUTE_AUTH env)])\<rparr>)"
  by (simp add: onAuthStateChange_handler_def setServerSession_def action_defs split: option.splits)

lemma handler_rejected:
  "onAuthStateChange_handler env (Rejected e) ev sess w =
     (Inl e,
      w\<lparr>userLoading := False,
        trace := trace w @
          [Console_log ev sess, SetUserLoading False,
           Fetch ''/api/auth''
             \<lparr>request_method = ''POST'', headers = [(''Content-Type'', ''application/json'')],
              credentials = ''same-origin'',
              body = JSON_stringify env \<lparr>event = ev, session = sess\<rparr>\<rparr>]\<rparr>)"
  by (simp add: onAuthStateChange_handler_def setServerSession_def action_defs)


lemma signInWithGithub_world:
  "signInWithGithub sdk w =
     ((case sdk of Fulfilled x \<Rightarrow> Inr () | Rejected e \<Rightarrow> Inl e),
      w\<lparr>trace := trace w @ [PreventDefault, Auth_signIn (Provider ''github'')]\<rparr>)"
  by (cases sdk) (simp_all add: signInWithGithub_def action_defs)

lemma signOut_world:
  "signOut sdk w =
     ((case sdk of Fulfilled x \<Rightarrow> Inr x | Rejected e \<Rightarrow> Inl e),
      w\<lparr>trace := trace w @ [Auth_signOut]\<rparr>)"
  by (cases sdk) (simp_all add: signOut_def action_defs)


lemma messages_shown_map: "messages_shown (map HandleMessage ms) = ms"
  by (induction ms) simp_all



lemma loading_writes_map: "loading_writes (map HandleMessage ms) = []"
  by (induction ms) simp_all

section \<open>The sign-up page and the SDK's sign-up call\<close>



section \<open>Failures of the SDK\<close>

text \<open>
  \<open>signUp\<close> and \<open>signIn\<close> catch what the SDK call throws and show it as a message.
\<close>

lemma signUp_catches:
  "handleMessage_defined env \<Longrightarrow>
   fst (signUp env (Rejected e) payload w) = Inr ()
   \<and> messages_shown (trace (snd (signUp env (Rejected e) payload w))) =
       messages_shown (trace w) @ [\<lparr>message = error_description_or_error e, type = Some ''error''\<rparr>]"
  by (simp add: signUp_def action_defs messages_shown_append)

lemma signIn_catches:
  "handleMessage_defined env \<Longrightarrow>
   fst (signIn env (Rejected e) payload w) = Inr ()
   \<and> messages_shown (trace (snd (signIn env (Rejected e) payload w))) =
       messages_shown (trace w) @ [\<lparr>message = error_description_or_error e, type = Some ''error''\<rparr>]"
  by (simp add: signIn_def action_defs messages_shown_append)

text \<open>
  C2: every failure raised by an SDK call is said to be caught at the call site and shown
  to the user. \<open>signInWithGithub\<close> and \<open>signOut\<close> have no \<open>try\<close>: when the SDK call
  rejects, the rejection leaves the function and no message is shown.
\<close>

theorem signInWithGithub_rejection_uncaught:
  "signInWithGithub (Rejected (Thrown (Some ''Failed to fetch''))) initial_world =
     (Inl (Thrown (Some ''Failed to fetch'')),
      initial_world\<lparr>trace := [PreventDefault, Auth_signIn (Provider ''github'')]\<rparr>)
   \<and> signOut (Rejected (Thrown (Some ''Failed to fetch''))) initial_world =
     (Inl (Thrown (Some ''Failed to fetch'')), initial_world\<lparr>trace := [Auth_signOut]\<rparr>)"
  by (simp add: signInWithGithub_world signOut_world initial_world_def)

section \<open>The auth-state-change listener\<close>

text \<open>
  C3, as amended: whenever the listener receives a notification whose session carries no
  user, and the session-sync request to \<open>/api/auth\<close> is fulfilled, the \<open>user\<close> cell is
  set to null and the browser is sent to the auth route. (The cell \<open>loggedIn\<close> is not
  written on this path.)
\<close>

theorem signed_out_notification:
  "session_user sess = None \<Longrightarrow>
   onAuthStateChange_handler env (Fulfilled r) ev sess w =
     (Inr (),
      w\<lparr>userLoading := False, world.user := None,
        trace := trace w @
          [Console_log ev sess, SetUserLoading False,
           Fetch ''/api/auth''
             \<lparr>request_method = ''POST'', headers = [(''Content-Type'', ''application/json'')],
              credentials = ''same-origin'',
              body = JSON_stringify env \<lparr>event = ev, session = sess\<rparr>\<rparr>,
           SetUser None, Router_push (ROUTE_AUTH env)]\<rparr>)"
  by (simp add: handler_fulfilled)

theorem signed_out_notification_witness:
  "session_user None = None
   \<and> world.user (snd (onAuthStateChange_handler example_env (Fulfilled (Response 200))
                        SIGNED_OUT None logged_in_world)) = None
   \<and> navigations (trace (snd (onAuthStateChange_handler example_env (Fulfilled (Response 200))
                        SIGNED_OUT None logged_in_world))) = [''/auth'']"
  using signed_out_notification
    [of None example_env "Response 200" SIGNED_OUT logged_in_world]
  by (simp add: example_env_def logged_in_world_def)

text \<open>
  C3 as written fails when the session-sync request is rejected: the listener awaits it
  before anything else, so the \<open>user\<close> cell keeps the signed-in user and nothing is
  navigated.
\<close>

theorem signed_out_sync_rejected_counterexample:
  "world.user (snd (onAuthStateChange_handler example_env (Rejected (TypeError ''Failed to fetch''))
                     SIGNED_OUT None logged_in_world)) \<noteq> None
   \<and> navigations (trace (snd (onAuthStateChange_handler example_env
                     (Rejected (TypeError ''Failed to fetch'')) SIGNED_OUT None logged_in_world))) = []"
  by (simp add: handler_rejected logged_in_world_def)



section \<open>Messages of sign-up and sign-in\<close>

text \<open>
  C5, as amended: when the SDK call of \<open>signUp\<close> or of \<open>signIn\<close> returns an error value
  and the message context delivers a \<open>handleMessage\<close>, the one message shown is the
  provider's error message, with type \<open>error\<close>. When it delivers none, \<open>signUp\<close>, which
  tests \<open>handleMessage\<close> before this call, shows nothing and completes.
\<close>

theorem provider_error_message_shown:
  "(handleMessage_defined env \<longrightarrow>
      messages_shown (trace (snd (signUp env (Fulfilled (Some err)) payload w))) =
        messages_shown (trace w) @ [\<lparr>message = Text (ApiError.message err), type = Some ''error''\<rparr>]
      \<and> messages_shown (trace (snd (signIn env (Fulfilled (Some err, u)) payload w))) =
        messages_shown (trace w) @ [\<lparr>message = Text (ApiError.message err), type = Some ''error''\<rparr>])
   \<and> (\<not> handleMessage_defined env \<longrightarrow>
      fst (signUp env (Fulfilled (Some err)) payload w) = Inr ()
      \<and> messages_shown (trace (snd (signUp env (Fulfilled (Some err)) payload w))) =
        messages_shown (trace w))"
proof (intro conjI impI)
  assume h: "handleMessage_defined env"
  show "messages_shown (trace (snd (signUp env (Fulfilled (Some err)) payload w))) =
        messages_shown (trace w) @ [\<lparr>message = Text (ApiError.message err), type = Some ''error''\<rparr>]"
    using h by (simp add: signUp_world signUp_messages_def messages_shown_append)
  show "messages_shown (trace (snd (signIn env (Fulfilled (Some err, u)) payload w))) =
        messages_shown (trace w) @ [\<lparr>message = Text (ApiError.message err), type = Some ''error''\<rparr>]"
    using h by (simp add: signIn_world signIn_messages_def messages_shown_append)
next
  assume n: "\<not> handleMessage_defined env"
  show "fst (signUp env (Fulfilled (Some err)) payload w) = Inr ()"
    using n by (simp add: signUp_def action_defs)
  show "messages_shown (trace (snd (signUp env (Fulfilled (Some err)) payload w))) =
        messages_shown (trace w)"
    using n by (simp add: signUp_world signUp_messages_def messages_shown_append)
qed

theorem provider_error_message_shown_witness:
  "handleMessage_defined example_env
   \<and> messages_shown (trace (snd (signUp example_env
         (Fulfilled (Some \<lparr>ApiError.message = ''User already registered''\<rparr>))
         \<lparr>email = ''a@b.c'', password = ''pw''\<rparr> initial_world))) =
       [\<lparr>message = Text ''User already registered'', type = Some ''error''\<rparr>]
   \<and> messages_shown (trace (snd (signIn example_env
         (Fulfilled (Some \<lparr>ApiError.message = ''Invalid login credentials''\<rparr>, None))
         \<lparr>email = ''a@b.c'', password = ''pw''\<rparr> initial_world))) =
       [\<lparr>message = Text ''Invalid login credentials'', type = Some ''error''\<rparr>]
   \<and> \<not> handleMessage_defined no_message_env
   \<and> fst (signUp no_message_env
         (Fulfilled (Some \<lparr>ApiError.message = ''User already registered''\<rparr>))
         \<lparr>email = ''a@b.c'', password = ''pw''\<rparr> initial_world) = Inr ()"
proof -
  have h: "handleMessage_defined example_env"
    by (simp add: example_env_def)
  have n: "\<not> handleMessage_defined no_message_env"
    by (simp add: no_message_env_def example_env_def)
  have i: "messages_shown (trace initial_world) = []"
    by (simp add: initial_world_def)
  from provider_error_message_shown
         [of example_env "\<lparr>ApiError.message = ''User already registered''\<rparr>"
            "\<lparr>email = ''a@b.c'', password = ''pw''\<rparr>" initial_world]
       provider_error_message_shown
         [of example_env "\<lparr>ApiError.message = ''Invalid login credentials''\<rparr>"
            "\<lparr>email = ''a@b.c'', password = ''pw''\<rparr>" initial_world None]
       provider_error_message_shown
         [of no_message_env "\<lparr>ApiError.message = ''User already registered''\<rparr>"
            "\<lparr>email = ''a@b.c'', password = ''pw''\<rparr>" initial_world]
       h n i
  show ?thesis by simp
qed

text \<open>
  C5 as written fails when the message context delivers no \<open>handleMessage\<close>: the SDK
  returns an error value and no message is shown, by \<open>signUp\<close> and by \<open>signIn\<close>.
\<close>

theorem signUp_error_without_handleMessage_counterexample:
  "messages_shown (trace (snd (signUp no_message_env
       (Fulfilled (Some \<lparr>ApiError.message = ''User already registered''\<rparr>))
       \<lparr>email = ''a@b.c'', password = ''pw''\<rparr> initial_world))) = []
   \<and> messages_shown (trace (snd (signIn no_message_env
       (Fulfilled (Some \<lparr>ApiError.message = ''Invalid login credentials''\<rparr>, None))
       \<lparr>email = ''a@b.c'', password = ''pw''\<rparr> initial_world))) = []"
  by (simp add: signUp_def signIn_def action_defs no_message_env_def example_env_def
      initial_world_def)

text \<open>
  C6, as amended: when the SDK call of \<open>signUp\<close> returns no error and the message context
  delivers a \<open>handleMessage\<close>, the one message shown is the success message, with type
  \<open>success\<close>.
\<close>

theorem signUp_success_message:
  "handleMessage_defined env \<Longrightarrow>
   messages_shown (trace (snd (signUp env (Fulfilled None) payload w))) =
     messages_shown (trace w) @
     [\<lparr>message = Text ''Signup successful. Please check your inbox for a confirmation email!'',
       type = Some ''success''\<rparr>]"
  by (simp add: signUp_world signUp_messages_def messages_shown_append)

theorem signUp_success_message_witness:
  "handleMessage_defined example_env
   \<and> messages_shown (trace (snd (signUp example_env (Fulfilled None)
         \<lparr>email = ''a@b.c'', password = ''pw''\<rparr> initial_world))) =
       [\<lparr>message = Text ''Signup successful. Please check your inbox for a confirmation email!'',
         type = Some ''success''\<rparr>]"
proof -
  have h: "handleMessage_defined example_env"
    by (simp add: example_env_def)
  from signUp_success_message [OF h, of "\<lparr>email = ''a@b.c'', password = ''pw''\<rparr>" initial_world] h
  show ?thesis by (simp add: initial_world_def)
qed

text \<open>
  C6 as written fails when the message context delivers no \<open>handleMessage\<close>: the success
  branch calls it without the test of the error branch, the \<open>catch\<close> block calls it
  again, and the run ends with a \<open>TypeError\<close> and no message.
\<close>

theorem signUp_success_without_handleMessage_counterexample:
  "signUp no_message_env (Fulfilled None) \<lparr>email = ''a@b.c'', password = ''pw''\<rparr> initial_world =
     (Inl (TypeError ''handleMessage is not a function''),
      initial_world\<lparr>trace :=
        [SetLoading True, Auth_signUp \<lparr>email = ''a@b.c'', password = ''pw''\<rparr>,
         SetLoading False]\<rparr>)
   \<and> messages_shown (trace (snd (signUp no_message_env (Fulfilled None)
       \<lparr>email = ''a@b.c'', password = ''pw''\<rparr> initial_world))) = []"
  by (simp add: signUp_def action_defs no_message_env_def example_env_def initial_world_def)

section \<open>Session sync and navigation\<close>

text \<open>
  C7: for every notification the listener makes exactly one request: a POST to the
  path \<open>/api/auth\<close> (a path-absolute reference, so on the page's own origin) with the
  header \<open>Content-Type: application/json\<close> and, as body, \<open>JSON.stringify\<close> of the
  object made of the event and the session. This holds however the request settles.
\<close>

theorem session_sync_request:
  "requests (trace (snd (onAuthStateChange_handler env fetched ev sess w))) =
     requests (trace w) @
     [(''/api/auth'',
       \<lparr>request_method = ''POST'', headers = [(''Content-Type'', ''application/json'')],
        credentials = ''same-origin'',
        body = JSON_stringify env \<lparr>event = ev, session = sess\<rparr>\<rparr>)]"
  by (cases fetched)
     (simp_all add: handler_fulfilled handler_rejected requests_append split: option.splits)


section \<open>The loading flag\<close>

text \<open>
  C10: every run of \<open>signUp\<close> and of \<open>signIn\<close> writes \<open>loading := true\<close> first, then
  calls the SDK, writes \<open>loading := false\<close> last and writes the flag nowhere between,
  whether the SDK call returns no error, returns an error value or throws; the flag is
  false at the end.
\<close>

theorem loading_flag_bracket:
  "(\<exists>mid. trace (snd (signUp env sdk payload w)) =
            trace w @ [SetLoading True, Auth_signUp payload] @ mid @ [SetLoading False]
          \<and> loading_writes mid = [])
   \<and> loading (snd (signUp env sdk payload w)) = False
   \<and> (\<exists>mid. trace (snd (signIn env sdk' payload w)) =
            trace w @ [SetLoading True, Auth_signIn (Credentials payload)] @ mid @ [SetLoading False]
          \<and> loading_writes mid = [])
   \<and> loading (snd (signIn env sdk' payload w)) = False"
proof -
  have up: "\<exists>mid. trace (snd (signUp env sdk payload w)) =
            trace w @ [SetLoading True, Auth_signUp payload] @ mid @ [SetLoading False]
          \<and> loading_writes mid = []"
    by (rule exI [of _ "map HandleMessage (signUp_messages env sdk)"])
       (simp add: signUp_world loading_writes_map)
  have inn: "\<exists>mid. trace (snd (signIn env sdk' payload w)) =
            trace w @ [SetLoading True, Auth_signIn (Credentials payload)] @ mid @ [SetLoading False]
          \<and> loading_writes mid = []"
    by (rule exI [of _ "map HandleMessage (signIn_messages env sdk')"])
       (simp add: signIn_world loading_writes_map)
  from up inn show ?thesis
    by (simp add: signUp_world signIn_world)
qed

end
